theory Spec2Isabelle
  imports Main
begin

section \<open>The runtime's time values\<close>

text \<open>
  The server is a thin layer over Go's \<^verbatim>\<open>time\<close> package. A \<^verbatim>\<open>time.Time\<close> is an
  instant (seconds since the Unix epoch and nanoseconds within the second) together with
  the location it is shown in. A location is a first zone and a list of transitions
  \<open>(when, zone)\<close> in increasing order of \<open>when\<close>; the zone in force at an instant
  is the one of the last transition not after it (\<^verbatim>\<open>Location.lookup\<close>).
\<close>

record zone =
  zone_name :: string
  zone_offset :: int
  zone_isDST :: bool

record Location =
  loc_name :: string
  loc_zone :: zone
  loc_tx :: "(int \<times> zone) list"

record Time =
  unixSec :: int
  nsec :: int
  loc :: Location

definition UTC :: Location where
  "UTC = \<lparr>loc_name = ''UTC'',
          loc_zone = \<lparr>zone_name = ''UTC'', zone_offset = 0, zone_isDST = False\<rparr>,
          loc_tx = []\<rparr>"

fun lookup_tx :: "zone \<Rightarrow> (int \<times> zone) list \<Rightarrow> int \<Rightarrow> zone" where
  "lookup_tx z [] sec = z"
| "lookup_tx z ((when, z') # tx) sec = (if sec < when then z else lookup_tx z' tx sec)"

definition lookup :: "Location \<Rightarrow> int \<Rightarrow> zone" where
  "lookup l sec = lookup_tx (loc_zone l) (loc_tx l) sec"

text \<open>
  The host: its timezone database (\<open>zoneinfo\<close>, from a name to the location stored
  under it) and its local zone \<^verbatim>\<open>time.Local\<close>.
\<close>

record host =
  zoneinfo :: "string \<Rightarrow> Location option"
  Local :: Location

text \<open>\<^verbatim>\<open>time.Unix(sec, nsec)\<close> (the instant, shown in the host's local zone; nanoseconds
  outside \<open>[0, 10\<^sup>9)\<close> are carried into the seconds), \<^verbatim>\<open>t.Unix()\<close>, \<^verbatim>\<open>t.In(loc)\<close>,
  \<^verbatim>\<open>t.UTC()\<close>, \<^verbatim>\<open>t.IsDST()\<close> and the zero \<^verbatim>\<open>time.Time{}\<close> (January 1, year 1,
  00:00:00 UTC).\<close>

definition time_Unix :: "host \<Rightarrow> int \<Rightarrow> int \<Rightarrow> Time" where
  "time_Unix h sec ns =
     \<lparr>unixSec = sec + ns div 1000000000, nsec = ns mod 1000000000, loc = Local h\<rparr>"

definition Time_Unix :: "Time \<Rightarrow> int" where
  "Time_Unix t = unixSec t"

definition Time_In :: "Time \<Rightarrow> Location \<Rightarrow> Time" where
  "Time_In t l = t\<lparr>loc := l\<rparr>"

definition Time_UTC :: "Time \<Rightarrow> Time" where
  "Time_UTC t = t\<lparr>loc := UTC\<rparr>"


definition Time_zero :: Time where
  "Time_zero = \<lparr>unixSec = - 62135596800, nsec = 0, loc = UTC\<rparr>"

subsection \<open>Calendar arithmetic\<close>

text \<open>
  Days are counted from 1970-01-01; \<open>719162\<close> is the number of days from
  0001-01-01 to 1970-01-01. \<open>absDate\<close> splits a day number into 400-year, 100-year,
  4-year and 1-year cycles as the runtime's \<^verbatim>\<open>absDate\<close> does, and \<open>daysSinceEpoch\<close>
  is its counterpart for the first day of a year. Go's \<^verbatim>\<open>/\<close> truncates towards zero
  (\<open>quot\<close>); HOL's \<open>div\<close> rounds down.
\<close>

definition quot :: "int \<Rightarrow> int \<Rightarrow> int" where
  "quot a b = (if a < 0 then - ((- a) div b) else a div b)"

definition isLeap :: "int \<Rightarrow> bool" where
  "isLeap year = (year mod 4 = 0 \<and> (year mod 100 \<noteq> 0 \<or> year mod 400 = 0))"

definition daysBefore :: "int list" where
  "daysBefore = [0, 31, 59, 90, 120, 151, 181, 212, 243, 273, 304, 334, 365]"

definition daysIn :: "int \<Rightarrow> int \<Rightarrow> int" where
  "daysIn m year =
     (if m = 2 \<and> isLeap year then 29
      else daysBefore ! nat m - daysBefore ! nat (m - 1))"

definition absDate :: "int \<Rightarrow> int \<times> int \<times> int" where
  "absDate days =
     (let d0 = days + 719162;
          n400 = d0 div 146097;
          d1 = d0 - 146097 * n400;
          c = d1 div 36524;
          n100 = c - c div 4;
          d2 = d1 - 36524 * n100;
          n4 = d2 div 1461;
          d3 = d2 - 1461 * n4;
          q = d3 div 365;
          n1 = q - q div 4;
          yday = d3 - 365 * n1;
          year = 400 * n400 + 100 * n100 + 4 * n4 + n1 + 1
      in if isLeap year \<and> yday = 31 + 29 - 1 then (year, 2, 29)
         else
           (let day = (if isLeap year \<and> yday > 31 + 29 - 1 then yday - 1 else yday);
                m = day div 31;
                e = daysBefore ! nat (m + 1)
            in if day \<ge> e then (year, m + 2, day - e + 1)
               else (year, m + 1, day - daysBefore ! nat m + 1)))"

definition absClock :: "int \<Rightarrow> int \<times> int \<times> int" where
  "absClock a =
     (let s = a mod 86400
      in (s div 3600, (s mod 3600) div 60, s mod 60))"

definition daysSinceEpoch :: "int \<Rightarrow> int" where
  "daysSinceEpoch year =
     (let y0 = year - 1;
          n400 = y0 div 400;
          y1 = y0 - 400 * n400;
          n100 = y1 div 100;
          y2 = y1 - 100 * n100;
          n4 = y2 div 4;
          y3 = y2 - 4 * n4
      in 146097 * n400 + 36524 * n100 + 1461 * n4 + 365 * y3 - 719162)"

text \<open>\<^verbatim>\<open>time.Date(year, month, day, hour, min, sec, nsec, time.UTC)\<close> for fields that are
  in range (the parser below checks the ranges before it calls \<^verbatim>\<open>Date\<close>).\<close>

definition time_Date :: "int \<Rightarrow> int \<Rightarrow> int \<Rightarrow> int \<Rightarrow> int \<Rightarrow> int \<Rightarrow> int \<Rightarrow> Time" where
  "time_Date year month day hour minute sec ns =
     (let d = daysSinceEpoch year + daysBefore ! nat (month - 1)
                + (if isLeap year \<and> month \<ge> 3 then 1 else 0) + (day - 1)
      in \<lparr>unixSec = d * 86400 + hour * 3600 + minute * 60 + sec, nsec = ns, loc = UTC\<rparr>)"

definition time_FixedZone :: "string \<Rightarrow> int \<Rightarrow> Location" where
  "time_FixedZone name offset =
     \<lparr>loc_name = name,
      loc_zone = \<lparr>zone_name = name, zone_offset = offset, zone_isDST = False\<rparr>,
      loc_tx = []\<rparr>"

subsection \<open>Formatting with the RFC 3339 layouts\<close>

text \<open>The layout constants \<^verbatim>\<open>time.RFC3339\<close> and \<^verbatim>\<open>time.RFC3339Nano\<close>.\<close>

definition time_RFC3339 :: string where
  "time_RFC3339 = ''2006-01-02T15:04:05Z07:00''"

definition time_RFC3339Nano :: string where
  "time_RFC3339Nano = ''2006-01-02T15:04:05.999999999Z07:00''"

definition digit_char :: "nat \<Rightarrow> char" where
  "digit_char d = ''0123456789'' ! d"

function utoa :: "nat \<Rightarrow> string" where
  "utoa u = (if u < 10 then [digit_char u] else utoa (u div 10) @ [digit_char (u mod 10)])"
  by pat_completeness auto
termination
  by (relation "measure id") auto

declare utoa.simps [simp del]

text \<open>\<^verbatim>\<open>appendInt(b, x, width)\<close>: the decimal form of \<open>x\<close>, zero-padded to \<open>width\<close>,
  after a minus sign when \<open>x\<close> is negative.\<close>

definition appendInt :: "int \<Rightarrow> nat \<Rightarrow> string" where
  "appendInt x width =
     (let s = utoa (nat \<bar>x\<bar>)
      in (if x < 0 then ''-'' else []) @ replicate (width - length s) (CHR ''0'') @ s)"

text \<open>\<^verbatim>\<open>appendNano\<close> for the fraction \<^verbatim>\<open>.999999999\<close>: nothing when the nanoseconds are
  zero, else nine digits with the trailing zeros cut.\<close>

definition appendNano :: "int \<Rightarrow> string" where
  "appendNano nanosec =
     (if nanosec = 0 then []
      else ''.'' @ rev (dropWhile (\<lambda>c. c = CHR ''0'') (rev (appendInt nanosec 9))))"

definition appendFormatRFC3339 :: "Time \<Rightarrow> bool \<Rightarrow> string" where
  "appendFormatRFC3339 t nanos =
     (let offset = zone_offset (lookup (loc t) (unixSec t));
          a = unixSec t + offset;
          (year, month, day) = absDate (a div 86400);
          (hour, minute, sec) = absClock a;
          zone = quot offset 60
      in appendInt year 4 @ ''-'' @ appendInt month 2 @ ''-'' @ appendInt day 2 @ ''T''
         @ appendInt hour 2 @ '':'' @ appendInt minute 2 @ '':'' @ appendInt sec 2
         @ (if nanos then appendNano (nsec t) else [])
         @ (if offset = 0 then ''Z''
            else (if zone < 0 then ''-'' else ''+'')
                 @ appendInt (\<bar>zone\<bar> div 60) 2 @ '':'' @ appendInt (\<bar>zone\<bar> mod 60) 2))"

text \<open>\<^verbatim>\<open>t.Format(layout)\<close> for the two layouts that \<^verbatim>\<open>GetFormatLayout\<close> can return and
  that the server passes itself. Any other layout is outside this model (\<open>None\<close>).\<close>

definition Time_Format :: "Time \<Rightarrow> string \<Rightarrow> string option" where
  "Time_Format t layout =
     (if layout = time_RFC3339 then Some (appendFormatRFC3339 t False)
      else if layout = time_RFC3339Nano then Some (appendFormatRFC3339 t True)
      else None)"

subsection \<open>Parsing with the RFC 3339 layouts\<close>

definition isDigit :: "char \<Rightarrow> bool" where
  "isDigit c = (c \<in> set ''0123456789'')"

definition digit_val :: "char \<Rightarrow> int" where
  "digit_val c = int (of_char c) - 48"

definition atoi :: "string \<Rightarrow> int" where
  "atoi s = foldl (\<lambda>x c. x * 10 + digit_val c) 0 s"

text \<open>The local \<^verbatim>\<open>parseUint\<close> of \<^verbatim>\<open>parseRFC3339\<close>: digits only, and the value within
  \<open>[lo, hi]\<close>.\<close>

definition parseUint :: "string \<Rightarrow> int \<Rightarrow> int \<Rightarrow> int option" where
  "parseUint s lo hi =
     (if list_all isDigit s \<and> lo \<le> atoi s \<and> atoi s \<le> hi then Some (atoi s) else None)"

definition slice :: "string \<Rightarrow> nat \<Rightarrow> nat \<Rightarrow> string" where
  "slice s i j = take (j - i) (drop i s)"

text \<open>The fraction of a second: a period, then digits. At most nine digits count; they
  are scaled to nanoseconds. Returns the nanoseconds and the rest of the input.\<close>

definition parseFraction :: "string \<Rightarrow> int \<times> string" where
  "parseFraction s =
     (case s of
        c # d # rest \<Rightarrow>
          (if c = CHR ''.'' \<and> isDigit d
           then (let ds = takeWhile isDigit (d # rest);
                     used = take 9 ds
                 in (atoi used * 10 ^ (9 - length used), dropWhile isDigit (d # rest)))
           else (0, s))
      | _ \<Rightarrow> (0, s))"

text \<open>The zone: \<^verbatim>\<open>Z\<close>, or a sign, two digits, a colon and two digits. \<open>None\<close> when the
  text is neither; \<open>Some None\<close> for \<^verbatim>\<open>Z\<close>; else the offset in seconds.\<close>

definition parseZone :: "string \<Rightarrow> int option option" where
  "parseZone s =
     (if s = ''Z'' then Some None
      else if length s \<noteq> 6 then None
      else (case (parseUint (slice s 1 3) 0 23, parseUint (slice s 4 6) 0 59) of
              (Some hr, Some mm) \<Rightarrow>
                (if (s ! 0 = CHR ''-'' \<or> s ! 0 = CHR ''+'') \<and> s ! 3 = CHR '':''
                 then Some (Some ((if s ! 0 = CHR ''-'' then - 1 else 1) * ((hr * 60 + mm) * 60)))
                 else None)
            | _ \<Rightarrow> None))"

definition parseRFC3339 :: "string \<Rightarrow> Location \<Rightarrow> Time option" where
  "parseRFC3339 s local =
     (if length s < 19 then None
      else
        (case (parseUint (slice s 0 4) 0 9999, parseUint (slice s 5 7) 1 12) of
           (Some year, Some month) \<Rightarrow>
             (case (parseUint (slice s 8 10) 1 (daysIn month year),
                    parseUint (slice s 11 13) 0 23,
                    parseUint (slice s 14 16) 0 59,
                    parseUint (slice s 17 19) 0 59) of
                (Some day, Some hour, Some minute, Some sec) \<Rightarrow>
                  (if s ! 4 = CHR ''-'' \<and> s ! 7 = CHR ''-'' \<and> s ! 10 = CHR ''T''
                      \<and> s ! 13 = CHR '':'' \<and> s ! 16 = CHR '':''
                   then
                     (let (ns, rest) = parseFraction (drop 19 s);
                          t = time_Date year month day hour minute sec ns
                      in case parseZone rest of
                           None \<Rightarrow> None
                         | Some None \<Rightarrow> Some t
                         | Some (Some zoneOffset) \<Rightarrow>
                             (let u = unixSec t - zoneOffset
                              in if zone_offset (lookup local u) = zoneOffset
                                 then Some (t\<lparr>unixSec := u, loc := local\<rparr>)
                                 else Some (t\<lparr>unixSec := u,
                                              loc := time_FixedZone [] zoneOffset\<rparr>)))
                   else None)
              | _ \<Rightarrow> None)
         | _ \<Rightarrow> None))"

text \<open>
  The runtime's general parser \<^verbatim>\<open>parse\<close>, followed along the layout
  \<^verbatim>\<open>2006-01-02T15:04:05Z07:00\<close>. \<^verbatim>\<open>getnum\<close> reads one or two digits (two when
  \<open>fixed\<close>); \<^verbatim>\<open>skip\<close> reads one literal character. The year is four digits; month,
  day, minute and second are two digits and the hour is one or two; a fraction may
  follow the seconds after a period or a comma; the zone is \<^verbatim>\<open>Z\<close> or a sign, two
  digits, a colon and two digits, with hours up to 24 and minutes up to 60; nothing may
  follow. The day is checked against the month last. With the fraction
  \<^verbatim>\<open>.999999999\<close> in the layout the parser takes the same texts and gives the same
  times.
\<close>

definition commaOrPeriod :: "char \<Rightarrow> bool" where
  "commaOrPeriod c = (c = CHR ''.'' \<or> c = CHR '','')"

definition getnum :: "string \<Rightarrow> bool \<Rightarrow> (int \<times> string) option" where
  "getnum s fixed =
     (case s of
        [] \<Rightarrow> None
      | c # r \<Rightarrow>
          (if \<not> isDigit c then None
           else (case r of
                   [] \<Rightarrow> (if fixed then None else Some (digit_val c, r))
                 | d # r' \<Rightarrow>
                     (if \<not> isDigit d then (if fixed then None else Some (digit_val c, r))
                      else Some (digit_val c * 10 + digit_val d, r')))))"

definition skip :: "string \<Rightarrow> char \<Rightarrow> string option" where
  "skip v c = (case v of [] \<Rightarrow> None | x # r \<Rightarrow> (if x = c then Some r else None))"

definition parseDateFields :: "string \<Rightarrow> (int \<times> int \<times> int \<times> string) option" where
  "parseDateFields v =
     (if length v < 4 \<or> \<not> isDigit (v ! 0) then None
      else if \<not> list_all isDigit (take 4 v) then None
      else
        (case skip (drop 4 v) (CHR ''-'') of
           None \<Rightarrow> None
         | Some v1 \<Rightarrow>
             (case getnum v1 True of
                None \<Rightarrow> None
              | Some (month, v2) \<Rightarrow>
                  (if month \<le> 0 \<or> 12 < month then None
                   else
                     (case skip v2 (CHR ''-'') of
                        None \<Rightarrow> None
                      | Some v3 \<Rightarrow>
                          (case getnum v3 True of
                             None \<Rightarrow> None
                           | Some (day, v4) \<Rightarrow> Some (atoi (take 4 v), month, day, v4)))))))"

definition parseMinSec :: "string \<Rightarrow> (int \<times> string) option" where
  "parseMinSec v =
     (case skip v (CHR '':'') of
        None \<Rightarrow> None
      | Some v1 \<Rightarrow>
          (case getnum v1 True of
             None \<Rightarrow> None
           | Some (n, v2) \<Rightarrow> (if 60 \<le> n then None else Some (n, v2))))"

definition parseClockFields :: "string \<Rightarrow> (int \<times> int \<times> int \<times> string) option" where
  "parseClockFields v =
     (case skip v (CHR ''T'') of
        None \<Rightarrow> None
      | Some v1 \<Rightarrow>
          (case getnum v1 False of
             None \<Rightarrow> None
           | Some (hour, v2) \<Rightarrow>
               (if 24 \<le> hour then None
                else
                  (case parseMinSec v2 of
                     None \<Rightarrow> None
                   | Some (minute, v3) \<Rightarrow>
                       (case parseMinSec v3 of
                          None \<Rightarrow> None
                        | Some (sec, v4) \<Rightarrow> Some (hour, minute, sec, v4))))))"

definition parseFractionAny :: "string \<Rightarrow> int \<times> string" where
  "parseFractionAny s =
     (case s of
        c # d # rest \<Rightarrow>
          (if commaOrPeriod c \<and> isDigit d
           then (let ds = takeWhile isDigit (d # rest);
                     used = take 9 ds
                 in (atoi used * 10 ^ (9 - length used), dropWhile isDigit (d # rest)))
           else (0, s))
      | _ \<Rightarrow> (0, s))"

text \<open>The zone chunk \<^verbatim>\<open>Z07:00\<close> of the general parser: \<open>None\<close> for a text it
  refuses, else \<open>None\<close> for \<^verbatim>\<open>Z\<close> or the offset in seconds, and what follows.\<close>

definition parseZoneChunk :: "string \<Rightarrow> (int option \<times> string) option" where
  "parseZoneChunk v =
     (if length v \<ge> 1 \<and> v ! 0 = CHR ''Z'' then Some (None, drop 1 v)
      else if length v < 6 then None
      else if v ! 3 \<noteq> CHR '':'' then None
      else
        (case (getnum (slice v 1 3) True, getnum (slice v 4 6) True) of
           (Some (hr, r1), Some (mm, r2)) \<Rightarrow>
             (if hr > 24 \<or> mm > 60 then None
              else if v ! 0 = CHR ''+'' then Some (Some ((hr * 60 + mm) * 60), drop 6 v)
              else if v ! 0 = CHR ''-'' then Some (Some (- ((hr * 60 + mm) * 60)), drop 6 v)
              else None)
         | _ \<Rightarrow> None))"

definition parse :: "string \<Rightarrow> Location \<Rightarrow> Time option" where
  "parse v local =
     (case parseDateFields v of
        None \<Rightarrow> None
      | Some (year, month, day, v1) \<Rightarrow>
          (case parseClockFields v1 of
             None \<Rightarrow> None
           | Some (hour, minute, sec, v2) \<Rightarrow>
               (let (ns, v3) = parseFractionAny v2
                in case parseZoneChunk v3 of
                     None \<Rightarrow> None
                   | Some (z, rest) \<Rightarrow>
                       (if rest \<noteq> [] then None
                        else if day < 1 \<or> day > daysIn month year then None
                        else
                          (let t = time_Date year month day hour minute sec ns
                           in case z of
                                None \<Rightarrow> Some t
                              | Some zoneOffset \<Rightarrow>
                                  (let u = unixSec t - zoneOffset
                                   in if zone_offset (lookup local u) = zoneOffset
                                      then Some (t\<lparr>unixSec := u, loc := local\<rparr>)
                                      else Some (t\<lparr>unixSec := u,
                                                   loc := time_FixedZone [] zoneOffset\<rparr>)))))))"

text \<open>\<^verbatim>\<open>time.ParseInLocation(layout, value, loc)\<close> for the two layouts above: the
  runtime tries \<^verbatim>\<open>parseRFC3339\<close> first and, when that refuses the text, its general
  parser. Any other layout is outside this model (\<open>None\<close>).\<close>

definition time_ParseInLocation :: "string \<Rightarrow> string \<Rightarrow> Location \<Rightarrow> Time option" where
  "time_ParseInLocation layout v l =
     (if layout = time_RFC3339 \<or> layout = time_RFC3339Nano
      then (case parseRFC3339 v l of
              Some t \<Rightarrow> Some t
            | None \<Rightarrow> parse v l)
      else None)"

text \<open>\<^verbatim>\<open>time.LoadLocation(name)\<close>: the empty name and \<^verbatim>\<open>UTC\<close> are UTC whatever the
  database holds, \<^verbatim>\<open>Local\<close> is the host's local zone, and every other name is looked
  up in the database; \<open>None\<close> is the runtime's error.\<close>

definition time_LoadLocation :: "host \<Rightarrow> string \<Rightarrow> Location option" where
  "time_LoadLocation h name =
     (if name = [] \<or> name = ''UTC'' then Some UTC
      else if name = ''Local'' then Some (Local h)
      else zoneinfo h name)"

section \<open>Format types (internal/time/types.go)\<close>

type_synonym FormatType = string

definition FormatRFC3339 :: FormatType where "FormatRFC3339 = ''RFC3339''"
definition FormatRFC3339Nano :: FormatType where "FormatRFC3339Nano = ''RFC3339Nano''"
definition FormatUnix :: FormatType where "FormatUnix = ''Unix''"
definition FormatUnixMilli :: FormatType where "FormatUnixMilli = ''UnixMilli''"
definition FormatUnixMicro :: FormatType where "FormatUnixMicro = ''UnixMicro''"
definition FormatUnixNano :: FormatType where "FormatUnixNano = ''UnixNano''"
definition FormatLayout :: FormatType where "FormatLayout = ''Layout''"

definition IsValidFormat :: "string \<Rightarrow> bool" where
  "IsValidFormat format =
     (if format = FormatRFC3339 \<or> format = FormatRFC3339Nano \<or> format = FormatUnix
         \<or> format = FormatUnixMilli \<or> format = FormatUnixMicro
         \<or> format = FormatUnixNano \<or> format = FormatLayout
      then True
      else False)"

definition GetFormatLayout :: "FormatType \<Rightarrow> string" where
  "GetFormatLayout format =
     (if format = FormatRFC3339 then time_RFC3339
      else if format = FormatRFC3339Nano then time_RFC3339Nano
      else time_RFC3339)"

section \<open>Request and result records (internal/time/types.go)\<close>

record DSTInfo =
  dst_Start :: Time
  dst_End :: Time
  dst_Saving :: int

record DSTTransitionInfo =
  NextTransition :: Time
  TransitionType :: string
  OffsetChange :: int

record TimezoneInfo =
  tzi_Name :: string
  tzi_Abbreviation :: string
  tzi_Offset :: string
  tzi_OffsetSeconds :: int
  tzi_IsDST :: bool
  tzi_DST :: "DSTInfo option"
  tzi_DSTTransition :: "DSTTransitionInfo option"

text \<open>\<^verbatim>\<open>FormatTimeInput.Timestamp\<close> is an \<^verbatim>\<open>interface{}\<close> that holds a number or a string.\<close>

datatype Timestamp = TsNumber int | TsString string

record ParseTimeInput =
  pti_TimeString :: string
  pti_Format :: string
  pti_Timezone :: string

record FormatTimeInput =
  fti_Timestamp :: Timestamp
  fti_Format :: string
  fti_Timezone :: string

record GetTimeInput =
  gti_Timezone :: string
  gti_Format :: string

record TimezoneInfoInput =
  tii_Timezone :: string
  tii_ReferenceTime :: Time

record GetTimeResult =
  gtr_FormattedTime :: string
  gtr_Timezone :: string
  gtr_Format :: string
  gtr_UnixTimestamp :: int

record FormatTimeResult =
  ftr_FormattedTime :: string
  ftr_Timezone :: string
  ftr_Format :: string
  ftr_UnixTimestamp :: int

record ParseTimeResult =
  ptr_UnixTimestamp :: int
  ptr_RFC3339 :: string
  ptr_Timezone :: string
  ptr_IsDST :: bool

text \<open>The zero values \<^verbatim>\<open>GetTimeResult{}\<close>, \<^verbatim>\<open>FormatTimeResult{}\<close>, \<^verbatim>\<open>ParseTimeResult{}\<close> and
  \<^verbatim>\<open>TimezoneInfo{}\<close>: empty strings, 0, false and nil pointers.\<close>

definition GetTimeResult_zero :: GetTimeResult where
  "GetTimeResult_zero =
     \<lparr>gtr_FormattedTime = [], gtr_Timezone = [], gtr_Format = [], gtr_UnixTimestamp = 0\<rparr>"

definition FormatTimeResult_zero :: FormatTimeResult where
  "FormatTimeResult_zero =
     \<lparr>ftr_FormattedTime = [], ftr_Timezone = [], ftr_Format = [], ftr_UnixTimestamp = 0\<rparr>"

definition ParseTimeResult_zero :: ParseTimeResult where
  "ParseTimeResult_zero =
     \<lparr>ptr_UnixTimestamp = 0, ptr_RFC3339 = [], ptr_Timezone = [], ptr_IsDST = False\<rparr>"

definition TimezoneInfo_zero :: TimezoneInfo where
  "TimezoneInfo_zero =
     \<lparr>tzi_Name = [], tzi_Abbreviation = [], tzi_Offset = [], tzi_OffsetSeconds = 0,
      tzi_IsDST = False, tzi_DST = None, tzi_DSTTransition = None\<rparr>"

section \<open>Tool handlers (package tools, in internal/logger/logger.go)\<close>

text \<open>
  A handler reads the clock, calls the time service once, records metrics and returns the
  triple \<^verbatim>\<open>(*mcp.CallToolResult, result, error)\<close>. What the handler does to its
  surroundings is kept in a \<open>world\<close>: the clock that \<^verbatim>\<open>time.Now()\<close> reads (in
  nanoseconds) and the metric and log records written so far. The time service is the
  interface \<^verbatim>\<open>TimeService\<close>: any implementation, which may itself read and change the
  world. A text content built by \<^verbatim>\<open>fmt.Sprintf\<close> is kept as the format string and its
  arguments. Each \<open>register...Tool\<close> below is the handler function that the Go
  function of that name hands to \<^verbatim>\<open>mcp.AddTool\<close>; a duration is the difference of two
  clock readings (the source turns it into seconds).
\<close>

datatype 'e event =
    ToolRequestDuration string string int
  | TimeOperationDuration string string int
  | LogError string 'e

record 'e world =
  clock :: int
  events :: "'e event list"

datatype fmt_arg =
    ArgString string
  | ArgInt int
  | ArgBool bool
  | ArgTimestamp Timestamp
  | ArgDuration int
  | ArgTimeRFC3339 Time
  | ArgSprintf string "fmt_arg list"

datatype mcp_Content = TextContent string "fmt_arg list"

record CallToolResult =
  Content :: "mcp_Content list"

record 'e TimeService =
  GetCurrentTime :: "GetTimeInput \<Rightarrow> 'e world \<Rightarrow> ('e + GetTimeResult) \<times> 'e world"
  FormatTime :: "FormatTimeInput \<Rightarrow> 'e world \<Rightarrow> ('e + FormatTimeResult) \<times> 'e world"
  ParseTime :: "ParseTimeInput \<Rightarrow> 'e world \<Rightarrow> ('e + ParseTimeResult) \<times> 'e world"
  GetTimezoneInfo :: "TimezoneInfoInput \<Rightarrow> 'e world \<Rightarrow> ('e + TimezoneInfo) \<times> 'e world"

definition recordError :: "string \<Rightarrow> string \<Rightarrow> int \<Rightarrow> 'e \<Rightarrow> 'e world \<Rightarrow> 'e world" where
  "recordError toolName operationName startTime err w =
     (let duration = clock w - startTime
      in w\<lparr>events := events w @
              [ToolRequestDuration toolName ''error'' duration,
               TimeOperationDuration operationName ''error'' duration,
               LogError (toolName @ '' failed'') err]\<rparr>)"

definition recordSuccess :: "string \<Rightarrow> string \<Rightarrow> int \<Rightarrow> 'e world \<Rightarrow> 'e world" where
  "recordSuccess toolName operationName startTime w =
     (let duration = clock w - startTime
      in w\<lparr>events := events w @
              [ToolRequestDuration toolName ''success'' duration,
               TimeOperationDuration operationName ''success'' duration]\<rparr>)"

definition newline :: string where
  "newline = [CHR 0x0A]"

definition registerGetTimeTool ::
  "'e TimeService \<Rightarrow> GetTimeInput \<Rightarrow> 'e world
     \<Rightarrow> (CallToolResult option \<times> GetTimeResult \<times> 'e option) \<times> 'e world" where
  "registerGetTimeTool timeService input w =
     (let startTime = clock w
      in case GetCurrentTime timeService input w of
           (Inl err, w') \<Rightarrow>
             ((None, GetTimeResult_zero, Some err),
              recordError ''get_time'' ''get_current_time'' startTime err w')
         | (Inr result, w') \<Rightarrow>
             ((Some \<lparr>Content =
                 [TextContent
                    (''Current time: %s'' @ newline @ ''Timezone: %s'' @ newline @ ''Format: %s'')
                    [ArgString (gtr_FormattedTime result), ArgString (gtr_Timezone result),
                     ArgString (gtr_Format result)]]\<rparr>,
               result, None),
              recordSuccess ''get_time'' ''get_current_time'' startTime w'))"

definition registerFormatTimeTool ::
  "'e TimeService \<Rightarrow> FormatTimeInput \<Rightarrow> 'e world
     \<Rightarrow> (CallToolResult option \<times> FormatTimeResult \<times> 'e option) \<times> 'e world" where
  "registerFormatTimeTool timeService input w =
     (let startTime = clock w
      in case FormatTime timeService input w of
           (Inl err, w') \<Rightarrow>
             ((None, FormatTimeResult_zero, Some err),
              recordError ''format_time'' ''format_time'' startTime err w')
         | (Inr result, w') \<Rightarrow>
             ((Some \<lparr>Content =
                 [TextContent
                    (''Formatted time: %s'' @ newline @ ''Original: %s'' @ newline
                       @ ''Timezone: %s'' @ newline @ ''Format: %s'')
                    [ArgString (ftr_FormattedTime result), ArgTimestamp (fti_Timestamp input),
                     ArgString (ftr_Timezone result), ArgString (ftr_Format result)]]\<rparr>,
               result, None),
              recordSuccess ''format_time'' ''format_time'' startTime w'))"

definition registerParseTimeTool ::
  "'e TimeService \<Rightarrow> ParseTimeInput \<Rightarrow> 'e world
     \<Rightarrow> (CallToolResult option \<times> ParseTimeResult \<times> 'e option) \<times> 'e world" where
  "registerParseTimeTool timeService input w =
     (let startTime = clock w
      in case ParseTime timeService input w of
           (Inl err, w') \<Rightarrow>
             ((None, ParseTimeResult_zero, Some err),
              recordError ''parse_time'' ''parse_time'' startTime err w')
         | (Inr result, w') \<Rightarrow>
             ((Some \<lparr>Content =
                 [TextContent
                    (''Parsed time:'' @ newline @ ''- Unix timestamp: %d'' @ newline
                       @ ''- RFC3339: %s'' @ newline @ ''- Timezone: %s'' @ newline
                       @ ''- Is DST: %t'')
                    [ArgInt (ptr_UnixTimestamp result), ArgString (ptr_RFC3339 result),
                     ArgString (ptr_Timezone result), ArgBool (ptr_IsDST result)]]\<rparr>,
               result, None),
              recordSuccess ''parse_time'' ''parse_time'' startTime w'))"

definition registerTimezoneInfoTool ::
  "'e TimeService \<Rightarrow> TimezoneInfoInput \<Rightarrow> 'e world
     \<Rightarrow> (CallToolResult option \<times> TimezoneInfo \<times> 'e option) \<times> 'e world" where
  "registerTimezoneInfoTool timeService input w =
     (let startTime = clock w
      in case GetTimezoneInfo timeService input w of
           (Inl err, w') \<Rightarrow>
             ((None, TimezoneInfo_zero, Some err),
              recordError ''timezone_info'' ''get_timezone_info'' startTime err w')
         | (Inr result, w') \<Rightarrow>
             (let dstInfo =
                (case tzi_DST result of
                   None \<Rightarrow> ArgString ''No DST transitions''
                 | Some d \<Rightarrow>
                     ArgSprintf ''DST: %s to %s (saving %s)''
                       [ArgTimeRFC3339 (dst_Start d), ArgTimeRFC3339 (dst_End d),
                        ArgDuration (dst_Saving d)])
              in ((Some \<lparr>Content =
                     [TextContent
                        (''Timezone: %s'' @ newline @ ''Abbreviation: %s'' @ newline
                           @ ''Offset: %s'' @ newline @ ''Current DST: %t'' @ newline @ ''%s'')
                        [ArgString (tzi_Name result), ArgString (tzi_Abbreviation result),
                         ArgString (tzi_Offset result), ArgBool (tzi_IsDST result),
                         dstInfo]]\<rparr>,
                   result, None),
                  recordSuccess ''timezone_info'' ''get_timezone_info'' startTime w')))"

text \<open>The three error kinds of the time service.\<close>

datatype error = InvalidTimezone | InvalidFormat | ParseFailure

section \<open>The health endpoint (internal/server/server.go)\<close>

text \<open>
  The configuration type lives in the package \<^verbatim>\<open>config\<close>; the record has the fields
  of \<^verbatim>\<open>cfg.Server\<close> that the server package reads. The handler sets the content type,
  writes status 200 and prints the body; the request is not looked at. \<open>now\<close> is what
  \<^verbatim>\<open>time.Now()\<close> returns when the request is served.
\<close>

record ServerConfig =
  Name :: string
  Version :: string
  Host :: string
  Port :: int

record Config =
  Server :: ServerConfig

record ResponseWriter =
  Header :: "(string \<times> string) list"
  StatusCode :: int
  Body :: string

definition http_StatusOK :: int where
  "http_StatusOK = 200"

definition createHealthHandler :: "Config \<Rightarrow> Time \<Rightarrow> 'request \<Rightarrow> ResponseWriter" where
  \<open>createHealthHandler cfg now r =
     \<lparr>Header = [(''Content-Type'', ''application/json'')],
      StatusCode = http_StatusOK,
      Body = ''{"status":"healthy","service":"'' @ Name (Server cfg)
               @ ''","version":"'' @ Version (Server cfg)
               @ ''","timestamp":"'' @ appendFormatRFC3339 (Time_UTC now) False
               @ ''"}''\<rparr>\<close>

section \<open>The time service\<close>

text \<open>
  The handlers above call the time service through its interface. Its implementation,
  \<^verbatim>\<open>internal/time/service.go\<close>, is not among the sources; \<^verbatim>\<open>app.go\<close> shows that
  \<^verbatim>\<open>NewTimeService\<close> builds it from the configured default timezone, default format
  and list of supported formats. The two methods below are written from the spec's
  description of the operations (section 4.1) and its table of outputs (section 6), over
  \<^verbatim>\<open>GetFormatLayout\<close> and \<^verbatim>\<open>IsValidFormat\<close> of \<^verbatim>\<open>types.go\<close> and the runtime functions
  above. \<open>h\<close> is the host: its timezone database and its local zone.
\<close>

record timeService =
  defaultTimezone :: string
  defaultFormat :: string
  supportedFormats :: "string list"

text \<open>
  Modelled from the spec: the reading of \<^verbatim>\<open>FormatTime\<close>'s timestamp, which
  \<^verbatim>\<open>service.go\<close> does and which is missing from the sources. The spec: the timestamp
  is an epoch number or an already-formatted date/time string; a string is tried against
  a small ordered list of accepted formats. The list here holds the two layouts of
  \<^verbatim>\<open>GetFormatLayout\<close>.
\<close>

fun firstLayout :: "string list \<Rightarrow> string \<Rightarrow> Location \<Rightarrow> Time option" where
  "firstLayout [] v l = None"
| "firstLayout (layout # layouts) v l =
     (case time_ParseInLocation layout v l of
        Some t \<Rightarrow> Some t
      | None \<Rightarrow> firstLayout layouts v l)"

definition parseTimestamp :: "host \<Rightarrow> Timestamp \<Rightarrow> Time option" where
  "parseTimestamp h ts =
     (case ts of
        TsNumber n \<Rightarrow> Some (time_Unix h n 0)
      | TsString v \<Rightarrow> firstLayout [time_RFC3339, time_RFC3339Nano] v UTC)"

text \<open>
  Modelled from the spec: the method \<^verbatim>\<open>FormatTime\<close> of \<^verbatim>\<open>service.go\<close>, which is
  missing from the sources. The spec: it accepts the timestamp (\<^verbatim>\<open>ParseFailure\<close> when a
  string fits no accepted format), converts it into the requested timezone (the
  configured default when none is given; \<^verbatim>\<open>InvalidTimezone\<close> when the name does not
  resolve) and renders it using the requested format (\<^verbatim>\<open>InvalidFormat\<close> for an
  unrecognised token). It returns the formatted string, the zone, the format and the
  epoch seconds. The layout of a format is the one \<^verbatim>\<open>GetFormatLayout\<close> selects.
\<close>

definition timeService_FormatTime ::
  "host \<Rightarrow> timeService \<Rightarrow> FormatTimeInput \<Rightarrow> error + FormatTimeResult" where
  "timeService_FormatTime h s input =
     (case parseTimestamp h (fti_Timestamp input) of
        None \<Rightarrow> Inl ParseFailure
      | Some t \<Rightarrow>
          (let timezone = (if fti_Timezone input = [] then defaultTimezone s
                           else fti_Timezone input)
           in case time_LoadLocation h timezone of
                None \<Rightarrow> Inl InvalidTimezone
              | Some l \<Rightarrow>
                  (if \<not> IsValidFormat (fti_Format input) then Inl InvalidFormat
                   else
                     (case Time_Format (Time_In t l) (GetFormatLayout (fti_Format input)) of
                        None \<Rightarrow> Inl InvalidFormat
                      | Some formatted \<Rightarrow>
                          Inr \<lparr>ftr_FormattedTime = formatted,
                               ftr_Timezone = timezone,
                               ftr_Format = fti_Format input,
                               ftr_UnixTimestamp = Time_Unix t\<rparr>))))"




section \<open>Theorems\<close>

lemma format_constants_distinct:
  "FormatRFC3339 \<noteq> FormatRFC3339Nano" "time_RFC3339 \<noteq> time_RFC3339Nano"
  by (simp_all add: FormatRFC3339_def FormatRFC3339Nano_def time_RFC3339_def
      time_RFC3339Nano_def)

text \<open>
  Claim C10. \<^verbatim>\<open>GetFormatLayout\<close> returns a layout for every format value and has no error
  result. For every format other than \<^verbatim>\<open>RFC3339Nano\<close> (the Unix family, \<^verbatim>\<open>Layout\<close> and
  every token that \<^verbatim>\<open>IsValidFormat\<close> rejects included) the layout is \<^verbatim>\<open>time.RFC3339\<close>.
\<close>

theorem GetFormatLayout_default_RFC3339:
  assumes "format \<noteq> FormatRFC3339Nano"
  shows "GetFormatLayout format = time_RFC3339"
  using assms by (simp add: GetFormatLayout_def)

theorem GetFormatLayout_default_RFC3339_witness:
  "''Bogus'' \<noteq> FormatRFC3339Nano \<and> \<not> IsValidFormat ''Bogus''
   \<and> GetFormatLayout ''Bogus'' = time_RFC3339
   \<and> FormatUnix \<noteq> FormatRFC3339Nano \<and> GetFormatLayout FormatUnix = time_RFC3339"
proof -
  have a: "''Bogus'' \<noteq> FormatRFC3339Nano"
    by (simp add: FormatRFC3339Nano_def)
  have b: "FormatUnix \<noteq> FormatRFC3339Nano"
    by (simp add: FormatUnix_def FormatRFC3339Nano_def)
  have c: "\<not> IsValidFormat ''Bogus''"
    by (simp add: IsValidFormat_def FormatRFC3339_def FormatRFC3339Nano_def FormatUnix_def
        FormatUnixMilli_def FormatUnixMicro_def FormatUnixNano_def FormatLayout_def)
  show ?thesis
    using a b c GetFormatLayout_default_RFC3339 [OF a] GetFormatLayout_default_RFC3339 [OF b]
    by simp
qed

text \<open>
  Claim C7. When the time service returns an error, the tool handler returns that same
  error value as its error result, with a nil \<^verbatim>\<open>CallToolResult\<close> and the zero result
  record. The service has been called once: the world the handler leaves is the world
  after that one call with the error's metric and log records appended. This holds for
  every error value, the three error kinds included.
\<close>

theorem handlers_return_error_verbatim:
  "(GetCurrentTime svc i1 w1 = (Inl err1, w1') \<longrightarrow>
      registerGetTimeTool svc i1 w1 =
        ((None, GetTimeResult_zero, Some err1),
         recordError ''get_time'' ''get_current_time'' (clock w1) err1 w1'))
   \<and> (FormatTime svc i2 w2 = (Inl err2, w2') \<longrightarrow>
      registerFormatTimeTool svc i2 w2 =
        ((None, FormatTimeResult_zero, Some err2),
         recordError ''format_time'' ''format_time'' (clock w2) err2 w2'))
   \<and> (ParseTime svc i3 w3 = (Inl err3, w3') \<longrightarrow>
      registerParseTimeTool svc i3 w3 =
        ((None, ParseTimeResult_zero, Some err3),
         recordError ''parse_time'' ''parse_time'' (clock w3) err3 w3'))
   \<and> (GetTimezoneInfo svc i4 w4 = (Inl err4, w4') \<longrightarrow>
      registerTimezoneInfoTool svc i4 w4 =
        ((None, TimezoneInfo_zero, Some err4),
         recordError ''timezone_info'' ''get_timezone_info'' (clock w4) err4 w4'))"
  by (simp add: registerGetTimeTool_def registerFormatTimeTool_def
      registerParseTimeTool_def registerTimezoneInfoTool_def)

theorem handlers_return_error_verbatim_witness:
  "registerGetTimeTool
     \<lparr>GetCurrentTime = (\<lambda>i w. (Inl InvalidTimezone, w\<lparr>clock := clock w + 7\<rparr>)),
      FormatTime = (\<lambda>i w. (Inl InvalidFormat, w\<lparr>clock := clock w + 7\<rparr>)),
      ParseTime = (\<lambda>i w. (Inl ParseFailure, w\<lparr>clock := clock w + 7\<rparr>)),
      GetTimezoneInfo = (\<lambda>i w. (Inl InvalidTimezone, w\<lparr>clock := clock w + 7\<rparr>))\<rparr>
     \<lparr>gti_Timezone = ''Nowhere/Place'', gti_Format = ''RFC3339''\<rparr>
     \<lparr>clock = 100, events = []\<rparr>
   = ((None, GetTimeResult_zero, Some InvalidTimezone),
      \<lparr>clock = 107,
       events = [ToolRequestDuration ''get_time'' ''error'' 7,
                 TimeOperationDuration ''get_current_time'' ''error'' 7,
                 LogError ''get_time failed'' InvalidTimezone]\<rparr>)
   \<and> registerFormatTimeTool
     \<lparr>GetCurrentTime = (\<lambda>i w. (Inl InvalidTimezone, w\<lparr>clock := clock w + 7\<rparr>)),
      FormatTime = (\<lambda>i w. (Inl InvalidFormat, w\<lparr>clock := clock w + 7\<rparr>)),
      ParseTime = (\<lambda>i w. (Inl ParseFailure, w\<lparr>clock := clock w + 7\<rparr>)),
      GetTimezoneInfo = (\<lambda>i w. (Inl InvalidTimezone, w\<lparr>clock := clock w + 7\<rparr>))\<rparr>
     \<lparr>fti_Timestamp = TsNumber 0, fti_Format = ''Bogus'', fti_Timezone = ''UTC''\<rparr>
     \<lparr>clock = 100, events = []\<rparr>
   = ((None, FormatTimeResult_zero, Some InvalidFormat),
      \<lparr>clock = 107,
       events = [ToolRequestDuration ''format_time'' ''error'' 7,
                 TimeOperationDuration ''format_time'' ''error'' 7,
                 LogError ''format_time failed'' InvalidFormat]\<rparr>)
   \<and> registerParseTimeTool
     \<lparr>GetCurrentTime = (\<lambda>i w. (Inl InvalidTimezone, w\<lparr>clock := clock w + 7\<rparr>)),
      FormatTime = (\<lambda>i w. (Inl InvalidFormat, w\<lparr>clock := clock w + 7\<rparr>)),
      ParseTime = (\<lambda>i w. (Inl ParseFailure, w\<lparr>clock := clock w + 7\<rparr>)),
      GetTimezoneInfo = (\<lambda>i w. (Inl InvalidTimezone, w\<lparr>clock := clock w + 7\<rparr>))\<rparr>
     \<lparr>pti_TimeString = ''yesterday'', pti_Format = [], pti_Timezone = []\<rparr>
     \<lparr>clock = 100, events = []\<rparr>
   = ((None, ParseTimeResult_zero, Some ParseFailure),
      \<lparr>clock = 107,
       events = [ToolRequestDuration ''parse_time'' ''error'' 7,
                 TimeOperationDuration ''parse_time'' ''error'' 7,
                 LogError ''parse_time failed'' ParseFailure]\<rparr>)
   \<and> registerTimezoneInfoTool
     \<lparr>GetCurrentTime = (\<lambda>i w. (Inl InvalidTimezone, w\<lparr>clock := clock w + 7\<rparr>)),
      FormatTime = (\<lambda>i w. (Inl InvalidFormat, w\<lparr>clock := clock w + 7\<rparr>)),
      ParseTime = (\<lambda>i w. (Inl ParseFailure, w\<lparr>clock := clock w + 7\<rparr>)),
      GetTimezoneInfo = (\<lambda>i w. (Inl InvalidTimezone, w\<lparr>clock := clock w + 7\<rparr>))\<rparr>
     \<lparr>tii_Timezone = ''Nowhere/Place'', tii_ReferenceTime = Time_zero\<rparr>
     \<lparr>clock = 100, events = []\<rparr>
   = ((None, TimezoneInfo_zero, Some InvalidTimezone),
      \<lparr>clock = 107,
       events = [ToolRequestDuration ''timezone_info'' ''error'' 7,
                 TimeOperationDuration ''get_timezone_info'' ''error'' 7,
                 LogError ''timezone_info failed'' InvalidTimezone]\<rparr>)"
  using handlers_return_error_verbatim
    [of "\<lparr>GetCurrentTime = (\<lambda>i w. (Inl InvalidTimezone, w\<lparr>clock := clock w + 7\<rparr>)),
      FormatTime = (\<lambda>i w. (Inl InvalidFormat, w\<lparr>clock := clock w + 7\<rparr>)),
      ParseTime = (\<lambda>i w. (Inl ParseFailure, w\<lparr>clock := clock w + 7\<rparr>)),
      GetTimezoneInfo = (\<lambda>i w. (Inl InvalidTimezone, w\<lparr>clock := clock w + 7\<rparr>))\<rparr>"
      "\<lparr>gti_Timezone = ''Nowhere/Place'', gti_Format = ''RFC3339''\<rparr>"
      "\<lparr>clock = 100, events = []\<rparr>" InvalidTimezone "\<lparr>clock = 107, events = []\<rparr>"
      "\<lparr>fti_Timestamp = TsNumber 0, fti_Format = ''Bogus'', fti_Timezone = ''UTC''\<rparr>"
      "\<lparr>clock = 100, events = []\<rparr>" InvalidFormat "\<lparr>clock = 107, events = []\<rparr>"
      "\<lparr>pti_TimeString = ''yesterday'', pti_Format = [], pti_Timezone = []\<rparr>"
      "\<lparr>clock = 100, events = []\<rparr>" ParseFailure "\<lparr>clock = 107, events = []\<rparr>"
      "\<lparr>tii_Timezone = ''Nowhere/Place'', tii_ReferenceTime = Time_zero\<rparr>"
      "\<lparr>clock = 100, events = []\<rparr>" InvalidTimezone "\<lparr>clock = 107, events = []\<rparr>"]
  by (simp add: recordError_def)

subsection \<open>The health endpoint\<close>

lemma format_epoch_0:
  "appendFormatRFC3339 \<lparr>unixSec = 0, nsec = 0, loc = UTC\<rparr> False = ''1970-01-01T00:00:00Z''"
  by code_simp

lemma format_epoch_1:
  "appendFormatRFC3339 \<lparr>unixSec = 1, nsec = 0, loc = UTC\<rparr> False = ''1970-01-01T00:00:01Z''"
  by code_simp

lemma format_UTC_seconds_only:
  "appendFormatRFC3339 (Time_UTC t) False
     = appendFormatRFC3339 \<lparr>unixSec = unixSec t, nsec = 0, loc = UTC\<rparr> False"
  by (simp add: appendFormatRFC3339_def Time_UTC_def)

text \<open>
  Claim C9, as stated, at two instants: the health handler's bodies at epoch second 0 and
  at epoch second 1 differ, for the same configuration and the same request.
\<close>

theorem health_body_not_fixed:
  "Body (createHealthHandler
           \<lparr>Server = \<lparr>Name = ''mcp-server-time'', Version = ''1.0.0'', Host = ''localhost'',
                       Port = 8080\<rparr>\<rparr>
           (time_Unix \<lparr>zoneinfo = (\<lambda>name. None), Local = UTC\<rparr> 0 0) ())
   \<noteq> Body (createHealthHandler
           \<lparr>Server = \<lparr>Name = ''mcp-server-time'', Version = ''1.0.0'', Host = ''localhost'',
                       Port = 8080\<rparr>\<rparr>
           (time_Unix \<lparr>zoneinfo = (\<lambda>name. None), Local = UTC\<rparr> 1 0) ())"
  by (simp add: createHealthHandler_def format_UTC_seconds_only time_Unix_def
      format_epoch_0 format_epoch_1)

text \<open>
  Claim C9, amended. For every request the health handler answers with status 200 and
  content type \<^verbatim>\<open>application/json\<close>; the body is the status document with the
  configured service name and version and with the time of the call in UTC, to the
  second, as its timestamp. Two calls under the same configuration within the same
  second get the same response.
\<close>

theorem health_status_and_body:
  \<open>StatusCode (createHealthHandler cfg now r) = 200
   \<and> Header (createHealthHandler cfg now r) = [(''Content-Type'', ''application/json'')]
   \<and> Body (createHealthHandler cfg now r)
       = ''{"status":"healthy","service":"'' @ Name (Server cfg)
         @ ''","version":"'' @ Version (Server cfg)
         @ ''","timestamp":"''
         @ appendFormatRFC3339 \<lparr>unixSec = Time_Unix now, nsec = 0, loc = UTC\<rparr> False
         @ ''"}''
   \<and> (Time_Unix now = Time_Unix now' \<longrightarrow>
        createHealthHandler cfg now r = createHealthHandler cfg now' r')\<close>
  by (simp add: createHealthHandler_def http_StatusOK_def format_UTC_seconds_only
      Time_Unix_def)

theorem health_status_and_body_witness:
  \<open>Time_Unix \<lparr>unixSec = 0, nsec = 5, loc = time_FixedZone ''EST'' (- 18000)\<rparr>
     = Time_Unix \<lparr>unixSec = 0, nsec = 999, loc = UTC\<rparr>
   \<and> createHealthHandler
     \<lparr>Server = \<lparr>Name = ''mcp-server-time'', Version = ''1.0.0'', Host = ''localhost'',
                 Port = 8080\<rparr>\<rparr>
     \<lparr>unixSec = 0, nsec = 5, loc = time_FixedZone ''EST'' (- 18000)\<rparr> ''GET /health''
   = createHealthHandler
     \<lparr>Server = \<lparr>Name = ''mcp-server-time'', Version = ''1.0.0'', Host = ''localhost'',
                 Port = 8080\<rparr>\<rparr>
     \<lparr>unixSec = 0, nsec = 999, loc = UTC\<rparr> ''HEAD /health''
   \<and> StatusCode (createHealthHandler
     \<lparr>Server = \<lparr>Name = ''mcp-server-time'', Version = ''1.0.0'', Host = ''localhost'',
                 Port = 8080\<rparr>\<rparr>
     \<lparr>unixSec = 0, nsec = 5, loc = time_FixedZone ''EST'' (- 18000)\<rparr> ''GET /health'') = 200
   \<and> Body (createHealthHandler
     \<lparr>Server = \<lparr>Name = ''mcp-server-time'', Version = ''1.0.0'', Host = ''localhost'',
                 Port = 8080\<rparr>\<rparr>
     \<lparr>unixSec = 0, nsec = 5, loc = time_FixedZone ''EST'' (- 18000)\<rparr> ''GET /health'')
     = ''{"status":"healthy","service":"mcp-server-time","version":"1.0.0","timestamp":"1970-01-01T00:00:00Z"}''\<close>
  (is "?a = ?b \<and> ?h1 = ?h2 \<and> ?st = 200 \<and> ?body = ?doc")
proof -
  have h: "?a = ?b"
    by (simp add: Time_Unix_def)
  note inst = health_status_and_body
    [of "\<lparr>Server = \<lparr>Name = ''mcp-server-time'', Version = ''1.0.0'', Host = ''localhost'',
                 Port = 8080\<rparr>\<rparr>"
      "\<lparr>unixSec = 0, nsec = 5, loc = time_FixedZone ''EST'' (- 18000)\<rparr>" "''GET /health''"
      "\<lparr>unixSec = 0, nsec = 999, loc = UTC\<rparr>" "''HEAD /health''"]
  have same: "?h1 = ?h2"
    using inst h by blast
  have st: "?st = 200"
    using inst by blast
  have body: "?body = ?doc"
    by (simp add: conjunct1 [OF conjunct2 [OF conjunct2 [OF inst]]] Time_Unix_def
        format_epoch_0)
  show ?thesis
    using h same st body by blast
qed

subsection \<open>The time service\<close>



lemma LoadLocation_UTC: "time_LoadLocation h ''UTC'' = Some UTC"
  by (simp add: time_LoadLocation_def)

text \<open>
  Claim C4. \<^verbatim>\<open>FormatTime\<close> on the epoch number 0 with format \<^verbatim>\<open>RFC3339\<close> and timezone
  \<^verbatim>\<open>UTC\<close> succeeds, whatever the host's timezone database and local zone and the
  service's defaults are, and its formatted string is \<^verbatim>\<open>1970-01-01T00:00:00Z\<close>.
\<close>

theorem FormatTime_epoch_0:
  "timeService_FormatTime h s
     \<lparr>fti_Timestamp = TsNumber 0, fti_Format = ''RFC3339'', fti_Timezone = ''UTC''\<rparr>
   = Inr \<lparr>ftr_FormattedTime = ''1970-01-01T00:00:00Z'', ftr_Timezone = ''UTC'',
          ftr_Format = ''RFC3339'', ftr_UnixTimestamp = 0\<rparr>"
proof -
  have valid: "IsValidFormat ''RFC3339''"
    by (simp add: IsValidFormat_def FormatRFC3339_def)
  have layout: "GetFormatLayout ''RFC3339'' = time_RFC3339"
    by (simp add: GetFormatLayout_def FormatRFC3339_def)
  show ?thesis
    by (simp add: timeService_FormatTime_def parseTimestamp_def LoadLocation_UTC valid layout
        Time_Format_def Time_In_def format_epoch_0 Time_Unix_def time_Unix_def)
qed







end
